theory Spec2Isabelle
  imports Complex_Main "HOL-Library.Product_Lexorder"
begin

section \<open>utils.py\<close>

text \<open>
  Python numbers are modelled by unbounded integers and by real numbers: the
  floating-point values of the program are read as the reals they denote, and rounding is
  not modelled.
\<close>

subsection \<open>The colour table\<close>

text \<open>\<^verbatim>\<open>INT_TO_COLOR = {0: "y", 1: "b", 2: "g"}\<close>, a dictionary.\<close>

definition INT_TO_COLOR :: "int \<rightharpoonup> string" where
  "INT_TO_COLOR = [0 \<mapsto> ''y'', 1 \<mapsto> ''b'', 2 \<mapsto> ''g'']"

subsection \<open>\<^verbatim>\<open>get_possible_actions\<close>\<close>

text \<open>
  \<^verbatim>\<open>MAX_LEVEL\<close> and \<^verbatim>\<open>MAX_BLOCKS_IN_LEVEL\<close> are imported from the environment
  module; they are the numbers of levels and of blocks in a level, taken here as
  parameters. \<^verbatim>\<open>range(n)\<close> is the list \<open>0, ..., n - 1\<close> of integers.
\<close>

definition range_py :: "nat \<Rightarrow> int list" where
  "range_py n = map int [0..<n]"

text \<open>
  \<^verbatim>\<open>list(s)\<close> of a set enumerates its elements once each, in an order Python does not
  specify; the model takes the sorted enumeration as the representative.
\<close>

definition list_of_set :: "(int \<times> int) set \<Rightarrow> (int \<times> int) list" where
  "list_of_set s = sorted_list_of_set s"

definition get_possible_actions :: "nat \<Rightarrow> nat \<Rightarrow> (int \<times> int) set \<Rightarrow> (int \<times> int) list" where
  "get_possible_actions MAX_LEVEL MAX_BLOCKS_IN_LEVEL taken_actions =
     list_of_set
       (set (concat (map (\<lambda>level. map (\<lambda>color. (level, color)) (range_py MAX_BLOCKS_IN_LEVEL))
                         (range_py MAX_LEVEL)))
        - taken_actions)"

subsection \<open>\<^verbatim>\<open>calculate_reward\<close>\<close>

text \<open>
  A stability is a number or Python's \<^verbatim>\<open>None\<close>. The conditional expression tests the
  truth value of \<^verbatim>\<open>previous_stability\<close>: \<^verbatim>\<open>None\<close> and zero are false, every other
  number is true.
\<close>

definition truthy :: "real option \<Rightarrow> bool" where
  "truthy v = (case v of None \<Rightarrow> False | Some x \<Rightarrow> x \<noteq> 0)"

definition calculate_reward :: "int \<times> string \<Rightarrow> bool \<Rightarrow> real option \<Rightarrow> real \<Rightarrow> real" where
  "calculate_reward action is_fallen previous_stability current_stability =
     (case action of (level, color) \<Rightarrow>
        let base_reward = level + (if color = ''b'' then 1 else 0);
            stability_penalty =
              (case previous_stability of
                 None \<Rightarrow> - current_stability
               | Some p \<Rightarrow> if p \<noteq> 0 then p - current_stability else - current_stability);
            fall_penalty = (if is_fallen then - 50 else 0);
            reward = of_int base_reward + stability_penalty + fall_penalty
        in reward)"

section \<open>deep_q_agent.py\<close>

text \<open>
  The module \<^verbatim>\<open>deep_q_network\<close> (the classes \<^verbatim>\<open>DQN\<close> and \<^verbatim>\<open>ReplayMemory\<close>) and
  the library \<^verbatim>\<open>torch\<close> are outside the two source files. A network is represented by
  the value \<open>'p\<close> of all its parameters (its state dictionary), and what the agent uses of
  them is taken as parameters of the model:
  \<^item> \<open>DQN input_shape num_actions k\<close>: the freshly initialised parameters of the
    \<open>k\<close>-th network the constructor builds (the initialisation is random, so two
    constructions may give different parameters);
  \<^item> \<open>forward net state\<close>: the vector of action values the network with parameters
    \<open>net\<close> computes for one state;
  \<^item> \<open>Adam net lr\<close>: a new optimiser for the parameters \<open>net\<close>;
  \<^item> \<open>backward loss net\<close>: the gradient that automatic differentiation stores in the
    parameters \<open>net\<close> for the scalar \<open>loss\<close>, a function of these parameters;
  \<^item> \<open>step opt net grad\<close>: the optimiser's step, giving its new state and the new
    parameters;
  \<^item> \<open>sample memory batch_size\<close>: the transitions \<^verbatim>\<open>ReplayMemory.sample\<close> draws, or
    the error it raises.
\<close>

datatype error = ZeroDivisionError | KeyError | ValueError | RuntimeError

text \<open>A transition is \<open>(state, (level, color), reward, next_state, done)\<close>.\<close>

type_synonym 's transition = "'s \<times> (int \<times> int) \<times> real \<times> 's \<times> bool"

text \<open>The replay memory is the list of the transitions it holds; its \<^verbatim>\<open>len\<close> is the length.\<close>

record ('p, 'o, 's) agent =
  gamma :: real
  epsilon :: real
  epsilon_end :: real
  epsilon_decay :: real
  steps_done :: int
  policy_net_level_1 :: 'p
  policy_net_level_2 :: 'p
  target_net_level_1 :: 'p
  target_net_level_2 :: 'p
  optimizer_level_1 :: 'o
  optimizer_level_2 :: 'o
  memory :: "'s transition list"

subsection \<open>\<^verbatim>\<open>__init__\<close> and \<^verbatim>\<open>update_target_net\<close>\<close>

definition state_dict :: "'p \<Rightarrow> 'p" where
  "state_dict net = net"

definition load_state_dict :: "'p \<Rightarrow> 'p \<Rightarrow> 'p" where
  "load_state_dict net sd = sd"

definition init ::
  "('sh \<Rightarrow> nat \<Rightarrow> nat \<Rightarrow> 'p) \<Rightarrow> ('p \<Rightarrow> real \<Rightarrow> 'o) \<Rightarrow> 'sh \<Rightarrow> nat \<Rightarrow> nat \<Rightarrow>
     real \<Rightarrow> real \<Rightarrow> real \<Rightarrow> real \<Rightarrow> real \<Rightarrow> ('p, 'o, 's) agent" where
  "init DQN Adam input_shape num_actions_level_1 num_actions_level_2
        lr gamma0 epsilon_start epsilon_end0 epsilon_decay0 =
     (let policy_1 = DQN input_shape num_actions_level_1 0;
          policy_2 = DQN input_shape num_actions_level_2 1;
          target_1 = DQN input_shape num_actions_level_1 2;
          target_2 = DQN input_shape num_actions_level_2 3;
          target_1 = load_state_dict target_1 (state_dict policy_1);
          target_2 = load_state_dict target_2 (state_dict policy_2)
      in \<lparr>gamma = gamma0, epsilon = epsilon_start, epsilon_end = epsilon_end0,
          epsilon_decay = epsilon_decay0, steps_done = 0,
          policy_net_level_1 = policy_1, policy_net_level_2 = policy_2,
          target_net_level_1 = target_1, target_net_level_2 = target_2,
          optimizer_level_1 = Adam policy_1 lr, optimizer_level_2 = Adam policy_2 lr,
          memory = []\<rparr>)"

definition update_target_net :: "('p, 'o, 's) agent \<Rightarrow> ('p, 'o, 's) agent" where
  "update_target_net ag =
     (let ag1 = ag\<lparr>target_net_level_1 :=
                    load_state_dict (target_net_level_1 ag) (state_dict (policy_net_level_1 ag))\<rparr>
      in ag1\<lparr>target_net_level_2 :=
                load_state_dict (target_net_level_2 ag1) (state_dict (policy_net_level_2 ag1))\<rparr>)"

subsection \<open>\<^verbatim>\<open>select_action\<close>\<close>

text \<open>
  \<^verbatim>\<open>argmax\<close> of a row of values: the index of the first maximal value; it raises on an
  empty row.
\<close>

fun first_index :: "real list \<Rightarrow> real \<Rightarrow> nat" where
  "first_index [] v = 0"
| "first_index (x # xs) v = (if x = v then 0 else Suc (first_index xs v))"

definition row_max :: "real list \<Rightarrow> error + real" where
  "row_max row = (case row of [] \<Rightarrow> Inl RuntimeError | x # xs \<Rightarrow> Inr (fold max xs x))"

definition argmax :: "real list \<Rightarrow> error + int" where
  "argmax row =
     (case row_max row of Inl e \<Rightarrow> Inl e | Inr m \<Rightarrow> Inr (int (first_index row m)))"

text \<open>
  \<^verbatim>\<open>random.randrange(start, stop)\<close> returns one of \<open>start, ..., stop - 1\<close>, each with the
  same probability: the model lists these values.
\<close>

definition randrange :: "int \<Rightarrow> int \<Rightarrow> int list" where
  "randrange start stop = [start..stop - 1]"

text \<open>
  \<open>select_action forward ag state r\<close>, where \<open>r\<close> is the value drawn by
  \<^verbatim>\<open>random.random()\<close>, gives the agent after the call and the list of the equally likely
  results of the call: a raised error or a returned pair (level, colour). The division
  raises when \<open>epsilon_decay\<close> is zero, after \<open>steps_done\<close> has been incremented.
\<close>

definition select_action ::
  "('p \<Rightarrow> 's \<Rightarrow> real list) \<Rightarrow> ('p, 'o, 's) agent \<Rightarrow> 's \<Rightarrow> real \<Rightarrow>
     ('p, 'o, 's) agent \<times> (error + int \<times> string) list" where
  "select_action forward ag state r =
     (let ag1 = ag\<lparr>steps_done := steps_done ag + 1\<rparr> in
      if epsilon_decay ag1 = 0 then (ag1, [Inl ZeroDivisionError])
      else
        let ag2 = ag1\<lparr>epsilon := epsilon_end ag1 + (epsilon ag1 - epsilon_end ag1) *
                       exp (- 1 * of_int (steps_done ag1) / epsilon_decay ag1)\<rparr> in
        if r > epsilon ag2 then
          (ag2,
           [case argmax (forward (policy_net_level_1 ag2) state) of
              Inl e \<Rightarrow> Inl e
            | Inr level \<Rightarrow>
                (case argmax (forward (policy_net_level_2 ag2) state) of
                   Inl e \<Rightarrow> Inl e
                 | Inr c \<Rightarrow>
                     (case INT_TO_COLOR c of
                        None \<Rightarrow> Inl KeyError
                      | Some color \<Rightarrow> Inr (level, color)))])
        else
          (ag2,
           [case INT_TO_COLOR c of None \<Rightarrow> Inl KeyError | Some color \<Rightarrow> Inr (level, color).
              level \<leftarrow> randrange 0 9, c \<leftarrow> randrange 0 2]))"


subsection \<open>\<^verbatim>\<open>optimize_model\<close>\<close>

text \<open>The first error of a list of results, or all the values.\<close>

fun collect :: "(error + 'a) list \<Rightarrow> error + 'a list" where
  "collect [] = Inr []"
| "collect (Inl e # rs) = Inl e"
| "collect (Inr x # rs) = (case collect rs of Inl e \<Rightarrow> Inl e | Inr xs \<Rightarrow> Inr (x # xs))"

text \<open>\<^verbatim>\<open>gather\<close> on one row: the value at the index, which must be in range.\<close>

definition gather :: "real list \<Rightarrow> int \<Rightarrow> error + real" where
  "gather row i =
     (if 0 \<le> i \<and> i < int (length row) then Inr (row ! nat i) else Inl RuntimeError)"

text \<open>\<^verbatim>\<open>net(batch_state).gather(1, batch_action)\<close>: one value for each sample.\<close>

definition current_q_values ::
  "('p \<Rightarrow> 's \<Rightarrow> real list) \<Rightarrow> 'p \<Rightarrow> 's list \<Rightarrow> int list \<Rightarrow> error + real list" where
  "current_q_values forward net batch_state batch_action =
     collect (map (\<lambda>(row, i). gather row i) (zip (map (forward net) batch_state) batch_action))"

text \<open>
  \<^verbatim>\<open>net(batch_next_state).max(1)[0].detach()\<close>: the maximal value of each row, a constant
  for differentiation.
\<close>

definition next_q_values ::
  "('p \<Rightarrow> 's \<Rightarrow> real list) \<Rightarrow> 'p \<Rightarrow> 's list \<Rightarrow> error + real list" where
  "next_q_values forward net batch_next_state =
     collect (map (\<lambda>s. row_max (forward net s)) batch_next_state)"

text \<open>\<^verbatim>\<open>(next_q_values * gamma * (1 - batch_done)) + batch_reward\<close>, element by element.\<close>

definition expected_q_values :: "real \<Rightarrow> real list \<Rightarrow> real list \<Rightarrow> real list \<Rightarrow> real list" where
  "expected_q_values gamma0 next_q batch_done batch_reward =
     map (\<lambda>(q, d, r). (q * gamma0 * (1 - d)) + r) (zip next_q (zip batch_done batch_reward))"

text \<open>\<^verbatim>\<open>F.mse_loss\<close>: the mean of the squared differences.\<close>

definition mse_loss :: "real list \<Rightarrow> real list \<Rightarrow> real" where
  "mse_loss input target =
     (\<Sum>(x, y) \<leftarrow> zip input target. (x - y)\<^sup>2) / real (length input)"

text \<open>
  The loss as a function of the parameters of the one policy network it is computed
  from; the expected values are constants.
\<close>

definition loss ::
  "('p \<Rightarrow> 's \<Rightarrow> real list) \<Rightarrow> 's list \<Rightarrow> int list \<Rightarrow> real list \<Rightarrow> 'p \<Rightarrow> real" where
  "loss forward batch_state batch_action expected net =
     (case current_q_values forward net batch_state batch_action of
        Inl e \<Rightarrow> 0
      | Inr current \<Rightarrow> mse_loss current expected)"

text \<open>
  The five batches \<^verbatim>\<open>zip(*transitions)\<close> gives; \<^verbatim>\<open>batch_done\<close> is converted to
  floating point, \<open>1\<close> for true and \<open>0\<close> for false.
\<close>

definition batch_state_of :: "'s transition list \<Rightarrow> 's list" where
  "batch_state_of transitions = map (\<lambda>(s, a, r, s', d). s) transitions"

definition batch_action_level_of :: "'s transition list \<Rightarrow> int list" where
  "batch_action_level_of transitions = map (\<lambda>(s, a, r, s', d). fst a) transitions"

definition batch_action_color_of :: "'s transition list \<Rightarrow> int list" where
  "batch_action_color_of transitions = map (\<lambda>(s, a, r, s', d). snd a) transitions"

definition batch_reward_of :: "'s transition list \<Rightarrow> real list" where
  "batch_reward_of transitions = map (\<lambda>(s, a, r, s', d). r) transitions"

definition batch_next_state_of :: "'s transition list \<Rightarrow> 's list" where
  "batch_next_state_of transitions = map (\<lambda>(s, a, r, s', d). s') transitions"

definition batch_done_of :: "'s transition list \<Rightarrow> real list" where
  "batch_done_of transitions = map (\<lambda>(s, a, r, s', d). of_bool d) transitions"

text \<open>
  Unpacking \<^verbatim>\<open>zip(*transitions)\<close> into five names raises when the sample is empty. The
  gradients are zeroed before the two backward passes, so each optimiser steps with the
  gradient of its own network's loss.
\<close>

definition optimize_model ::
  "('p \<Rightarrow> 's \<Rightarrow> real list) \<Rightarrow> ('s transition list \<Rightarrow> int \<Rightarrow> error + 's transition list) \<Rightarrow>
     (('p \<Rightarrow> real) \<Rightarrow> 'p \<Rightarrow> 'g) \<Rightarrow> ('o \<Rightarrow> 'p \<Rightarrow> 'g \<Rightarrow> 'o \<times> 'p) \<Rightarrow> int \<Rightarrow>
     ('p, 'o, 's) agent \<Rightarrow> error + ('p, 'o, 's) agent" where
  "optimize_model forward sample backward step batch_size ag =
     (if int (length (memory ag)) < batch_size then Inr ag
      else
        case sample (memory ag) batch_size of
          Inl e \<Rightarrow> Inl e
        | Inr transitions \<Rightarrow>
            if transitions = [] then Inl ValueError
            else
              let batch_state = batch_state_of transitions;
                  batch_reward = batch_reward_of transitions;
                  batch_next_state = batch_next_state_of transitions;
                  batch_done = batch_done_of transitions;
                  batch_action_level = batch_action_level_of transitions;
                  batch_action_color = batch_action_color_of transitions
              in
              case current_q_values forward (policy_net_level_1 ag) batch_state
                     batch_action_level of
                Inl e \<Rightarrow> Inl e
              | Inr current_q_values_level_1 \<Rightarrow>
              case next_q_values forward (target_net_level_1 ag) batch_next_state of
                Inl e \<Rightarrow> Inl e
              | Inr next_q_values_level_1 \<Rightarrow>
              case current_q_values forward (policy_net_level_2 ag) batch_state
                     batch_action_color of
                Inl e \<Rightarrow> Inl e
              | Inr current_q_values_level_2 \<Rightarrow>
              case next_q_values forward (target_net_level_2 ag) batch_next_state of
                Inl e \<Rightarrow> Inl e
              | Inr next_q_values_level_2 \<Rightarrow>
                  let expected_q_values_level_1 =
                        expected_q_values (gamma ag) next_q_values_level_1 batch_done batch_reward;
                      expected_q_values_level_2 =
                        expected_q_values (gamma ag) next_q_values_level_2 batch_done batch_reward;
                      loss_level_1 = loss forward batch_state batch_action_level
                                       expected_q_values_level_1;
                      loss_level_2 = loss forward batch_state batch_action_color
                                       expected_q_values_level_2;
                      grad_1 = backward loss_level_1 (policy_net_level_1 ag);
                      grad_2 = backward loss_level_2 (policy_net_level_2 ag);
                      (opt_1, net_1) = step (optimizer_level_1 ag) (policy_net_level_1 ag) grad_1;
                      (opt_2, net_2) = step (optimizer_level_2 ag) (policy_net_level_2 ag) grad_2
                  in Inr (ag\<lparr>policy_net_level_1 := net_1, policy_net_level_2 := net_2,
                              optimizer_level_1 := opt_1, optimizer_level_2 := opt_2\<rparr>))"

section \<open>Example instances\<close>

text \<open>
  Concrete networks, optimisers and batches on which the functions above are evaluated.
  In the first family a network's parameters are one real number and its output for a
  state has three values; the gradient and the optimiser step are simple stand-ins.
\<close>

definition example_forward :: "real \<Rightarrow> real \<Rightarrow> real list" where
  "example_forward net state = [net, state, net + state]"

definition example_agent :: "(real, nat, real) agent" where
  "example_agent = \<lparr>gamma = 1 / 2, epsilon = 1, epsilon_end = 1 / 10, epsilon_decay = 5000,
     steps_done = 0, policy_net_level_1 = 1, policy_net_level_2 = 2,
     target_net_level_1 = 3, target_net_level_2 = 4,
     optimizer_level_1 = 5, optimizer_level_2 = 6, memory = []\<rparr>"

definition example_batch :: "real transition list" where
  "example_batch = [(0, (1, 0), 2, 5, True), (1, (0, 1), 3, 7, False)]"

definition example_batch_done :: "real transition list" where
  "example_batch_done = [(0, (1, 0), 2, 5, True), (1, (0, 1), 3, 7, True)]"

definition example_trained :: "(real, nat, real) agent" where
  "example_trained = example_agent\<lparr>memory := example_batch\<rparr>"

definition example_trained_done :: "(real, nat, real) agent" where
  "example_trained_done = example_agent\<lparr>memory := example_batch_done\<rparr>"

definition example_sample :: "real transition list \<Rightarrow> int \<Rightarrow> error + real transition list" where
  "example_sample mem batch_size = Inr (take (nat batch_size) mem)"

definition example_backward :: "(real \<Rightarrow> real) \<Rightarrow> real \<Rightarrow> real" where
  "example_backward loss_fn net = loss_fn net"

definition example_step :: "nat \<Rightarrow> real \<Rightarrow> real \<Rightarrow> nat \<times> real" where
  "example_step opt net grad = (Suc opt, net - grad)"

text \<open>
  In the second family a network's parameters are its number of actions, and its output
  is that many zeros. \<open>agent0 decay\<close> is the agent constructed with five level actions,
  three colour actions, the given \<open>epsilon_decay\<close> and the default values of the other
  arguments.
\<close>

definition fwd0 :: "nat \<Rightarrow> unit \<Rightarrow> real list" where
  "fwd0 n s = replicate n 0"

definition agent0 :: "real \<Rightarrow> (nat, unit, unit) agent" where
  "agent0 decay =
     init (\<lambda>sh n k. n) (\<lambda>p lr. ()) () 5 3 (1 / 10000) (99 / 100) 1 (1 / 10) decay"

section \<open>Properties of utils.py\<close>

lemma set_range_py: "set (range_py n) = int ` {0..<n}"
  by (simp add: range_py_def)

lemma distinct_range_py: "distinct (range_py n)"
  by (simp add: range_py_def distinct_map)

lemma length_range_py: "length (range_py n) = n"
  by (simp add: range_py_def)

lemma set_cross_product:
  "set (concat (map (\<lambda>level. map (\<lambda>color. (level, color)) (range_py b)) (range_py a)))
     = (int ` {0..<a}) \<times> (int ` {0..<b})"
  by (auto simp: set_range_py)

lemma card_int_image: "card (int ` {0..<n}) = n"
  by (simp add: card_image)

text \<open>
  C9. For every set \<open>taken_actions\<close>, \<open>get_possible_actions\<close> returns exactly the
  difference of the cross product of the levels \<open>0, ..., MAX_LEVEL - 1\<close> and the colours
  \<open>0, ..., MAX_BLOCKS_IN_LEVEL - 1\<close> and \<open>taken_actions\<close>, without duplicates; when
  \<open>taken_actions\<close> is the whole action space the result is empty, and when it is empty
  the result has \<open>MAX_LEVEL * MAX_BLOCKS_IN_LEVEL\<close> pairs. The function is a pure function
  of its argument.
\<close>

theorem get_possible_actions_set_difference:
  "set (get_possible_actions ml mb taken) = (int ` {0..<ml}) \<times> (int ` {0..<mb}) - taken
   \<and> distinct (get_possible_actions ml mb taken)
   \<and> get_possible_actions ml mb ((int ` {0..<ml}) \<times> (int ` {0..<mb})) = []
   \<and> length (get_possible_actions ml mb {}) = ml * mb"
proof -
  let ?full = "(int ` {0..<ml}) \<times> (int ` {0..<mb})"
  have fin: "finite (?full - taken)" by simp
  have s: "set (get_possible_actions ml mb taken) = ?full - taken"
    unfolding get_possible_actions_def list_of_set_def set_cross_product
    using fin by simp
  have d: "distinct (get_possible_actions ml mb taken)"
    unfolding get_possible_actions_def list_of_set_def by simp
  have e: "get_possible_actions ml mb ?full = []"
    unfolding get_possible_actions_def list_of_set_def set_cross_product by simp
  have "length (get_possible_actions ml mb {}) = card ?full"
    unfolding get_possible_actions_def list_of_set_def set_cross_product by simp
  also have "\<dots> = ml * mb"
    by (simp add: card_cartesian_product card_int_image)
  finally have l: "length (get_possible_actions ml mb {}) = ml * mb" .
  from s d e l show ?thesis by blast
qed

text \<open>
  C7. \<open>calculate_reward\<close> returns the base reward (the level, plus one for a blue block)
  plus the stability penalty (the previous stability minus the current one when the
  previous stability is truthy, the negated current stability otherwise, so also when the
  previous stability is exactly zero) plus the fall penalty (\<open>-50\<close> exactly when the tower
  has fallen). The two worked examples evaluate to \<open>4.2\<close> and \<open>-50.4\<close>.
\<close>

theorem calculate_reward_formula:
  "calculate_reward (level, color) is_fallen previous_stability current_stability
     = (of_int level + (if color = ''b'' then 1 else 0))
       + (if truthy previous_stability then the previous_stability - current_stability
          else - current_stability)
       + (if is_fallen then - 50 else 0)
   \<and> calculate_reward (level, color) is_fallen (Some 0) current_stability
     = (of_int level + (if color = ''b'' then 1 else 0)) + (- current_stability)
       + (if is_fallen then - 50 else 0)
   \<and> calculate_reward (3, ''b'') False (Some 0.8) 0.6 = 4.2
   \<and> calculate_reward (0, ''y'') True (Some 0.5) 0.9 = - 50.4"
  by (simp add: calculate_reward_def truthy_def Let_def split: option.split)

section \<open>Properties of deep_q_agent.py\<close>

subsection \<open>The target networks\<close>

text \<open>
  C8. After \<open>update_target_net\<close> the parameters of each target network are those of the
  corresponding policy network, whatever the target held before, and the policy networks
  are unchanged; so for every state the outputs of target and policy network agree.
\<close>

theorem update_target_net_copies:
  "target_net_level_1 (update_target_net ag) = policy_net_level_1 ag
   \<and> target_net_level_2 (update_target_net ag) = policy_net_level_2 ag
   \<and> policy_net_level_1 (update_target_net ag) = policy_net_level_1 ag
   \<and> policy_net_level_2 (update_target_net ag) = policy_net_level_2 ag
   \<and> forward (target_net_level_1 (update_target_net ag)) state
       = forward (policy_net_level_1 (update_target_net ag)) state
   \<and> forward (target_net_level_2 (update_target_net ag)) state
       = forward (policy_net_level_2 (update_target_net ag)) state"
  by (simp add: update_target_net_def load_state_dict_def state_dict_def Let_def)

text \<open>
  C10. Right after construction each target network's parameters are those of the
  corresponding policy network, so target and policy outputs agree on every state before
  any training step or call of \<open>update_target_net\<close>.
\<close>

theorem init_targets_copy_policies:
  "target_net_level_1 (init DQN Adam sh n1 n2 lr g es ee ed) = policy_net_level_1 (init DQN Adam sh n1 n2 lr g es ee ed)
  \<and> target_net_level_2 (init DQN Adam sh n1 n2 lr g es ee ed) = policy_net_level_2 (init DQN Adam sh n1 n2 lr g es ee ed)
  \<and> forward (target_net_level_1 (init DQN Adam sh n1 n2 lr g es ee ed)) state
       = forward (policy_net_level_1 (init DQN Adam sh n1 n2 lr g es ee ed)) state
  \<and> forward (target_net_level_2 (init DQN Adam sh n1 n2 lr g es ee ed)) state
       = forward (policy_net_level_2 (init DQN Adam sh n1 n2 lr g es ee ed)) state"
  by (simp add: init_def load_state_dict_def state_dict_def Let_def)

subsection \<open>The optimiser step\<close>

text \<open>
  C5. When the replay memory holds fewer than \<open>batch_size\<close> transitions,
  \<open>optimize_model\<close> returns at once and the agent is unchanged: all four networks, both
  optimisers and the memory. This holds for every \<open>sample\<close>, \<open>backward\<close> and \<open>step\<close>,
  also ones that would fail: none of them is called.
\<close>

theorem optimize_model_insufficient_data:
  "int (length (memory ag)) < batch_size \<Longrightarrow>
   optimize_model forward sample backward step batch_size ag = Inr ag"
  by (simp add: optimize_model_def)

theorem optimize_model_insufficient_data_witness:
  "optimize_model (\<lambda>(p::nat) (s::nat). [0, 1]) (\<lambda>m k. Inl ValueError)
      (\<lambda>f (p::nat). (0::real)) (\<lambda>(opt::nat) p g. (opt, p)) 2
      \<lparr>gamma = 0.99, epsilon = 1, epsilon_end = 0.1, epsilon_decay = 5000, steps_done = 0,
       policy_net_level_1 = 1, policy_net_level_2 = 2, target_net_level_1 = 3, target_net_level_2 = 4,
       optimizer_level_1 = 5, optimizer_level_2 = 6, memory = [(0, (1, 2), 1.5, 1, False)]\<rparr>
   = Inr \<lparr>gamma = 0.99, epsilon = 1, epsilon_end = 0.1, epsilon_decay = 5000, steps_done = 0,
       policy_net_level_1 = 1, policy_net_level_2 = 2, target_net_level_1 = 3, target_net_level_2 = 4,
       optimizer_level_1 = 5, optimizer_level_2 = 6, memory = [(0, (1, 2), 1.5, 1, False)]\<rparr>"
  by (rule optimize_model_insufficient_data) simp

lemma collect_Inr:
  "collect rs = Inr xs \<Longrightarrow> rs = map Inr xs"
proof (induction rs arbitrary: xs)
  case Nil
  then show ?case by simp
next
  case (Cons r rs)
  then show ?case by (cases r) (auto split: sum.splits)
qed

lemma fold_max_Max: "fold max xs (x::real) = Max (set (x # xs))"
  by (simp only: Max.set_eq_fold)

lemma row_max_Inr: "row_max row = Inr m \<Longrightarrow> row \<noteq> [] \<and> m = Max (set row)"
  by (cases row) (simp_all add: row_max_def fold_max_Max del: list.set set_simps)

lemma next_q_values_nth:
  assumes "next_q_values forward net ss = Inr qs"
  shows "length qs = length ss"
    and "i < length ss \<Longrightarrow> forward net (ss ! i) \<noteq> [] \<and> qs ! i = Max (set (forward net (ss ! i)))"
proof -
  from assms have eq: "map (\<lambda>s. row_max (forward net s)) ss = map Inr qs"
    unfolding next_q_values_def by (rule collect_Inr)
  then have "length (map (\<lambda>s. row_max (forward net s)) ss) = length (map Inr qs :: (error + real) list)"
    by simp
  then show len: "length qs = length ss" by simp
  assume i: "i < length ss"
  from eq have "map (\<lambda>s. row_max (forward net s)) ss ! i = (map Inr qs :: (error + real) list) ! i" by simp
  with i len have "row_max (forward net (ss ! i)) = Inr (qs ! i)" by simp
  then show "forward net (ss ! i) \<noteq> [] \<and> qs ! i = Max (set (forward net (ss ! i)))"
    by (rule row_max_Inr)
qed

lemma length_expected_q_values:
  "length next_q = n \<Longrightarrow> length batch_done = n \<Longrightarrow> length batch_reward = n \<Longrightarrow>
   length (expected_q_values g next_q batch_done batch_reward) = n"
  by (simp add: expected_q_values_def)

lemma expected_q_values_nth:
  "i < length next_q \<Longrightarrow> i < length batch_done \<Longrightarrow> i < length batch_reward \<Longrightarrow>
   expected_q_values g next_q batch_done batch_reward ! i
     = (next_q ! i * g * (1 - batch_done ! i)) + batch_reward ! i"
  by (simp add: expected_q_values_def)

lemma expected_q_values_all_done:
  assumes "length next_q = length batch_reward" "length batch_done = length batch_reward"
    and "\<forall>d\<in>set batch_done. d = 1"
  shows "expected_q_values g next_q batch_done batch_reward = batch_reward"
proof (rule nth_equalityI)
  show "length (expected_q_values g next_q batch_done batch_reward) = length batch_reward"
    using assms by (simp add: length_expected_q_values)
next
  fix i assume "i < length (expected_q_values g next_q batch_done batch_reward)"
  then have i: "i < length batch_reward" using assms by (simp add: length_expected_q_values)
  then have "batch_done ! i = 1" using assms by simp
  then show "expected_q_values g next_q batch_done batch_reward ! i = batch_reward ! i"
    using i assms by (simp add: expected_q_values_nth)
qed

lemma expected_q_values_bellman:
  assumes nq1: "next_q_values forward (target_net_level_1 ag) (batch_next_state_of transitions)
                  = Inr next_q_values_level_1"
      and nq2: "next_q_values forward (target_net_level_2 ag) (batch_next_state_of transitions)
                  = Inr next_q_values_level_2"
  shows "(\<forall>i<length transitions.
            case transitions ! i of (state, action, reward, next_state, is_done) \<Rightarrow>
              expected_q_values (gamma ag) next_q_values_level_1
                  (batch_done_of transitions) (batch_reward_of transitions) ! i
                = reward + gamma ag * Max (set (forward (target_net_level_1 ag) next_state))
                            * (1 - of_bool is_done)
              \<and> expected_q_values (gamma ag) next_q_values_level_2
                  (batch_done_of transitions) (batch_reward_of transitions) ! i
                = reward + gamma ag * Max (set (forward (target_net_level_2 ag) next_state))
                            * (1 - of_bool is_done))
         \<and> ((\<forall>d\<in>set (batch_done_of transitions). d = 1) \<longrightarrow>
              expected_q_values (gamma ag) next_q_values_level_1
                  (batch_done_of transitions) (batch_reward_of transitions)
                = batch_reward_of transitions
              \<and> expected_q_values (gamma ag) next_q_values_level_2
                  (batch_done_of transitions) (batch_reward_of transitions)
                = batch_reward_of transitions)"
proof -
  have l1: "length next_q_values_level_1 = length transitions"
    using next_q_values_nth(1)[OF nq1] by (simp add: batch_next_state_of_def)
  have l2: "length next_q_values_level_2 = length transitions"
    using next_q_values_nth(1)[OF nq2] by (simp add: batch_next_state_of_def)
  have ld: "length (batch_done_of transitions) = length transitions"
    by (simp add: batch_done_of_def)
  have lr: "length (batch_reward_of transitions) = length transitions"
    by (simp add: batch_reward_of_def)
  have each: "expected_q_values (gamma ag) next_q (batch_done_of transitions)
                  (batch_reward_of transitions) ! i
                = reward + gamma ag * Max (set (forward net next_state)) * (1 - of_bool is_done)"
    if nq: "next_q_values forward net (batch_next_state_of transitions) = Inr next_q"
      and i: "i < length transitions"
      and t: "transitions ! i = (state, action, reward, next_state, is_done)"
    for net next_q i state action reward next_state is_done
  proof -
    have len: "length next_q = length transitions"
      using next_q_values_nth(1)[OF nq] by (simp add: batch_next_state_of_def)
    have "i < length (batch_next_state_of transitions)"
      using i by (simp add: batch_next_state_of_def)
    from next_q_values_nth(2)[OF nq this]
    have "next_q ! i = Max (set (forward net (batch_next_state_of transitions ! i)))" by simp
    moreover have "batch_next_state_of transitions ! i = next_state"
      using i t by (simp add: batch_next_state_of_def)
    moreover have "batch_done_of transitions ! i = of_bool is_done"
      using i t by (simp add: batch_done_of_def)
    moreover have "batch_reward_of transitions ! i = reward"
      using i t by (simp add: batch_reward_of_def)
    ultimately show ?thesis
      using i len ld lr by (simp add: expected_q_values_nth)
  qed
  have a: "\<forall>i<length transitions.
            case transitions ! i of (state, action, reward, next_state, is_done) \<Rightarrow>
              expected_q_values (gamma ag) next_q_values_level_1
                  (batch_done_of transitions) (batch_reward_of transitions) ! i
                = reward + gamma ag * Max (set (forward (target_net_level_1 ag) next_state))
                            * (1 - of_bool is_done)
              \<and> expected_q_values (gamma ag) next_q_values_level_2
                  (batch_done_of transitions) (batch_reward_of transitions) ! i
                = reward + gamma ag * Max (set (forward (target_net_level_2 ag) next_state))
                            * (1 - of_bool is_done)"
  proof (intro allI impI)
    fix i assume i: "i < length transitions"
    obtain state action reward next_state is_done
      where t: "transitions ! i = (state, action, reward, next_state, is_done)"
      by (metis prod_cases5)
    show "case transitions ! i of (state, action, reward, next_state, is_done) \<Rightarrow>
              expected_q_values (gamma ag) next_q_values_level_1
                  (batch_done_of transitions) (batch_reward_of transitions) ! i
                = reward + gamma ag * Max (set (forward (target_net_level_1 ag) next_state))
                            * (1 - of_bool is_done)
              \<and> expected_q_values (gamma ag) next_q_values_level_2
                  (batch_done_of transitions) (batch_reward_of transitions) ! i
                = reward + gamma ag * Max (set (forward (target_net_level_2 ag) next_state))
                            * (1 - of_bool is_done)"
      using each[OF nq1 i t] each[OF nq2 i t] by (simp add: t)
  qed
  have b: "(\<forall>d\<in>set (batch_done_of transitions). d = 1) \<longrightarrow>
              expected_q_values (gamma ag) next_q_values_level_1
                  (batch_done_of transitions) (batch_reward_of transitions)
                = batch_reward_of transitions
              \<and> expected_q_values (gamma ag) next_q_values_level_2
                  (batch_done_of transitions) (batch_reward_of transitions)
                = batch_reward_of transitions"
    using expected_q_values_all_done l1 l2 ld lr by simp
  from a b show ?thesis by blast
qed

lemma mse_loss_sum:
  assumes "length q = length y"
  shows "mse_loss q y = (\<Sum>i<length q. (q ! i - y ! i)\<^sup>2) / real (length q)"
proof -
  have "(\<Sum>(a, b) \<leftarrow> zip q y. (a - b)\<^sup>2)
          = (\<Sum>i = 0..<length (zip q y). map (\<lambda>(a, b). (a - b)\<^sup>2) (zip q y) ! i)"
    by (simp only: sum_list_sum_nth length_map)
  also have "\<dots> = (\<Sum>i = 0..<length q. (q ! i - y ! i)\<^sup>2)"
    using assms by (intro sum.cong) simp_all
  finally show ?thesis
    by (simp add: mse_loss_def atLeast0LessThan)
qed

lemma current_q_values_nth:
  assumes "current_q_values forward net batch_state batch_action = Inr q"
  shows "length q = min (length batch_state) (length batch_action)"
    and "i < length batch_state \<Longrightarrow> i < length batch_action \<Longrightarrow>
         q ! i = forward net (batch_state ! i) ! nat (batch_action ! i)"
proof -
  let ?rs = "map (\<lambda>(row, i). gather row i) (zip (map (forward net) batch_state) batch_action)"
  from assms have eq: "?rs = map Inr q"
    unfolding current_q_values_def by (rule collect_Inr)
  then have "length ?rs = length (map Inr q :: (error + real) list)" by simp
  then show len: "length q = min (length batch_state) (length batch_action)" by simp
  assume i: "i < length batch_state" "i < length batch_action"
  from eq have "?rs ! i = (map Inr q :: (error + real) list) ! i" by simp
  with i len have "gather (forward net (batch_state ! i)) (batch_action ! i) = Inr (q ! i)"
    by simp
  then show "q ! i = forward net (batch_state ! i) ! nat (batch_action ! i)"
    by (simp add: gather_def split: if_splits)
qed

lemma loss_value:
  assumes q: "current_q_values forward net (batch_state_of transitions) batch_action = Inr q"
    and la: "length batch_action = length transitions"
    and ly: "length y = length transitions"
  shows "loss forward (batch_state_of transitions) batch_action y net
           = (\<Sum>i<length transitions. (q ! i - y ! i)\<^sup>2) / real (length transitions)"
proof -
  have "length q = length transitions"
    using current_q_values_nth(1)[OF q] la by (simp add: batch_state_of_def)
  then show ?thesis
    using q ly by (simp add: loss_def mse_loss_sum)
qed

lemma optimize_model_Inr:
  assumes run: "optimize_model forward sample backward step batch_size ag = Inr ag'"
    and enough: "\<not> int (length (memory ag)) < batch_size"
  shows "\<exists>transitions next_1 next_2.
      sample (memory ag) batch_size = Inr transitions
    \<and> next_q_values forward (target_net_level_1 ag) (batch_next_state_of transitions) = Inr next_1
    \<and> next_q_values forward (target_net_level_2 ag) (batch_next_state_of transitions) = Inr next_2
    \<and> policy_net_level_1 ag' =
        snd (step (optimizer_level_1 ag) (policy_net_level_1 ag)
              (backward (loss forward (batch_state_of transitions) (batch_action_level_of transitions)
                           (expected_q_values (gamma ag) next_1 (batch_done_of transitions)
                              (batch_reward_of transitions)))
                        (policy_net_level_1 ag)))
    \<and> optimizer_level_1 ag' =
        fst (step (optimizer_level_1 ag) (policy_net_level_1 ag)
              (backward (loss forward (batch_state_of transitions) (batch_action_level_of transitions)
                           (expected_q_values (gamma ag) next_1 (batch_done_of transitions)
                              (batch_reward_of transitions)))
                        (policy_net_level_1 ag)))
    \<and> policy_net_level_2 ag' =
        snd (step (optimizer_level_2 ag) (policy_net_level_2 ag)
              (backward (loss forward (batch_state_of transitions) (batch_action_color_of transitions)
                           (expected_q_values (gamma ag) next_2 (batch_done_of transitions)
                              (batch_reward_of transitions)))
                        (policy_net_level_2 ag)))
    \<and> optimizer_level_2 ag' =
        fst (step (optimizer_level_2 ag) (policy_net_level_2 ag)
              (backward (loss forward (batch_state_of transitions) (batch_action_color_of transitions)
                           (expected_q_values (gamma ag) next_2 (batch_done_of transitions)
                              (batch_reward_of transitions)))
                        (policy_net_level_2 ag)))"
  using run enough
  by (auto simp: optimize_model_def Let_def split: sum.splits if_splits prod.splits)


lemmas example_defs = optimize_model_def example_sample_def example_agent_def example_batch_def
     example_batch_done_def batch_state_of_def batch_reward_of_def batch_next_state_of_def
     batch_done_of_def batch_action_level_of_def batch_action_color_of_def current_q_values_def
     next_q_values_def gather_def row_max_def example_forward_def Let_def example_step_def
     example_trained_def example_trained_done_def

text \<open>
  C1. In \<open>optimize_model\<close> each policy network is stepped on the gradient of its loss,
  the mean squared difference between its current values and a regression target. The
  target of each sampled transition is \<open>reward + gamma * next_q * (1 - done)\<close>, where
  \<open>next_q\<close> is the maximal value the target network gives at the next state; it is a list
  of numbers, a constant of the loss that is differentiated. When every done-flag of the
  batch is \<open>1\<close> the target is the batch reward. This holds for the level and for the
  colour network.
\<close>

theorem optimize_model_bellman_target:
  assumes run: "optimize_model forward sample backward step batch_size ag = Inr ag'"
    and enough: "batch_size \<le> int (length (memory ag))"
    and smp: "sample (memory ag) batch_size = Inr transitions"
    and nq1: "next_q_values forward (target_net_level_1 ag) (batch_next_state_of transitions)
                = Inr next_q_1"
    and nq2: "next_q_values forward (target_net_level_2 ag) (batch_next_state_of transitions)
                = Inr next_q_2"
    and y1: "y_1 = expected_q_values (gamma ag) next_q_1 (batch_done_of transitions)
                     (batch_reward_of transitions)"
    and y2: "y_2 = expected_q_values (gamma ag) next_q_2 (batch_done_of transitions)
                     (batch_reward_of transitions)"
  shows "policy_net_level_1 ag' =
           snd (step (optimizer_level_1 ag) (policy_net_level_1 ag)
                 (backward (loss forward (batch_state_of transitions)
                              (batch_action_level_of transitions) y_1)
                    (policy_net_level_1 ag)))
       \<and> policy_net_level_2 ag' =
           snd (step (optimizer_level_2 ag) (policy_net_level_2 ag)
                 (backward (loss forward (batch_state_of transitions)
                              (batch_action_color_of transitions) y_2)
                    (policy_net_level_2 ag)))
       \<and> (\<forall>net q.
             current_q_values forward net (batch_state_of transitions)
                 (batch_action_level_of transitions) = Inr q \<longrightarrow>
             loss forward (batch_state_of transitions) (batch_action_level_of transitions) y_1 net
               = (\<Sum>i<length transitions. (q ! i - y_1 ! i)\<^sup>2) / real (length transitions))
       \<and> (\<forall>net q.
             current_q_values forward net (batch_state_of transitions)
                 (batch_action_color_of transitions) = Inr q \<longrightarrow>
             loss forward (batch_state_of transitions) (batch_action_color_of transitions) y_2 net
               = (\<Sum>i<length transitions. (q ! i - y_2 ! i)\<^sup>2) / real (length transitions))
       \<and> (\<forall>i<length transitions.
             case transitions ! i of (state, action, reward, next_state, is_done) \<Rightarrow>
               y_1 ! i = reward + gamma ag
                           * Max (set (forward (target_net_level_1 ag) next_state))
                           * (1 - of_bool is_done)
             \<and> y_2 ! i = reward + gamma ag
                           * Max (set (forward (target_net_level_2 ag) next_state))
                           * (1 - of_bool is_done))
       \<and> ((\<forall>d\<in>set (batch_done_of transitions). d = 1) \<longrightarrow>
             y_1 = batch_reward_of transitions \<and> y_2 = batch_reward_of transitions)"
proof -
  have ne: "\<not> int (length (memory ag)) < batch_size" using enough by simp
  from optimize_model_Inr[OF run ne] smp nq1 nq2
  have a: "policy_net_level_1 ag' =
           snd (step (optimizer_level_1 ag) (policy_net_level_1 ag)
                 (backward (loss forward (batch_state_of transitions)
                              (batch_action_level_of transitions) y_1)
                    (policy_net_level_1 ag)))"
    and b: "policy_net_level_2 ag' =
           snd (step (optimizer_level_2 ag) (policy_net_level_2 ag)
                 (backward (loss forward (batch_state_of transitions)
                              (batch_action_color_of transitions) y_2)
                    (policy_net_level_2 ag)))"
    unfolding y1 y2 by auto
  have l1: "length y_1 = length transitions"
    unfolding y1 using next_q_values_nth(1)[OF nq1]
    by (simp add: length_expected_q_values batch_next_state_of_def batch_done_of_def
          batch_reward_of_def)
  have l2: "length y_2 = length transitions"
    unfolding y2 using next_q_values_nth(1)[OF nq2]
    by (simp add: length_expected_q_values batch_next_state_of_def batch_done_of_def
          batch_reward_of_def)
  have c: "\<forall>net q.
             current_q_values forward net (batch_state_of transitions)
                 (batch_action_level_of transitions) = Inr q \<longrightarrow>
             loss forward (batch_state_of transitions) (batch_action_level_of transitions) y_1 net
               = (\<Sum>i<length transitions. (q ! i - y_1 ! i)\<^sup>2) / real (length transitions)"
  proof (intro allI impI)
    fix net q
    assume q: "current_q_values forward net (batch_state_of transitions)
                 (batch_action_level_of transitions) = Inr q"
    have la: "length (batch_action_level_of transitions) = length transitions"
      by (simp add: batch_action_level_of_def)
    from loss_value[OF q la l1]
    show "loss forward (batch_state_of transitions) (batch_action_level_of transitions) y_1 net
               = (\<Sum>i<length transitions. (q ! i - y_1 ! i)\<^sup>2) / real (length transitions)" .
  qed
  have d: "\<forall>net q.
             current_q_values forward net (batch_state_of transitions)
                 (batch_action_color_of transitions) = Inr q \<longrightarrow>
             loss forward (batch_state_of transitions) (batch_action_color_of transitions) y_2 net
               = (\<Sum>i<length transitions. (q ! i - y_2 ! i)\<^sup>2) / real (length transitions)"
  proof (intro allI impI)
    fix net q
    assume q: "current_q_values forward net (batch_state_of transitions)
                 (batch_action_color_of transitions) = Inr q"
    have la: "length (batch_action_color_of transitions) = length transitions"
      by (simp add: batch_action_color_of_def)
    from loss_value[OF q la l2]
    show "loss forward (batch_state_of transitions) (batch_action_color_of transitions) y_2 net
               = (\<Sum>i<length transitions. (q ! i - y_2 ! i)\<^sup>2) / real (length transitions)" .
  qed
  from expected_q_values_bellman[OF nq1 nq2] a b c d show ?thesis
    unfolding y1 y2 by blast
qed

theorem optimize_model_bellman_target_witness:
  "\<exists>ag' ag''.
     optimize_model example_forward example_sample example_backward example_step 2 example_trained
       = Inr ag'
   \<and> 2 \<le> int (length (memory example_trained))
   \<and> example_sample (memory example_trained) 2 = Inr example_batch
   \<and> next_q_values example_forward (target_net_level_1 example_trained)
        (batch_next_state_of example_batch) = Inr [8, 10]
   \<and> next_q_values example_forward (target_net_level_2 example_trained)
        (batch_next_state_of example_batch) = Inr [9, 11]
   \<and> [2, 8] = expected_q_values (gamma example_trained) [8, 10]
                  (batch_done_of example_batch) (batch_reward_of example_batch)
   \<and> [2, 17 / 2] = expected_q_values (gamma example_trained) [9, 11]
                  (batch_done_of example_batch) (batch_reward_of example_batch)
   \<and> policy_net_level_1 ag' =
        snd (example_step (optimizer_level_1 example_trained) (policy_net_level_1 example_trained)
              (example_backward (loss example_forward (batch_state_of example_batch)
                                   (batch_action_level_of example_batch) [2, 8])
                 (policy_net_level_1 example_trained)))
   \<and> policy_net_level_2 ag' =
        snd (example_step (optimizer_level_2 example_trained) (policy_net_level_2 example_trained)
              (example_backward (loss example_forward (batch_state_of example_batch)
                                   (batch_action_color_of example_batch) [2, 17 / 2])
                 (policy_net_level_2 example_trained)))
   \<and> current_q_values example_forward 1 (batch_state_of example_batch)
        (batch_action_level_of example_batch) = Inr [0, 1]
   \<and> loss example_forward (batch_state_of example_batch) (batch_action_level_of example_batch)
        [2, 8] 1
       = (\<Sum>i<length example_batch. ([0, 1] ! i - [2, 8] ! i)\<^sup>2) / real (length example_batch)
   \<and> [2, 8] ! 1 = 3 + gamma example_trained
                      * Max (set (example_forward (target_net_level_1 example_trained) 7))
                      * (1 - of_bool False)
   \<and> [2, 17 / 2] ! 1 = 3 + gamma example_trained
                      * Max (set (example_forward (target_net_level_2 example_trained) 7))
                      * (1 - of_bool False)
   \<and> optimize_model example_forward example_sample example_backward example_step 2
        example_trained_done = Inr ag''
   \<and> 2 \<le> int (length (memory example_trained_done))
   \<and> example_sample (memory example_trained_done) 2 = Inr example_batch_done
   \<and> next_q_values example_forward (target_net_level_1 example_trained_done)
        (batch_next_state_of example_batch_done) = Inr [8, 10]
   \<and> next_q_values example_forward (target_net_level_2 example_trained_done)
        (batch_next_state_of example_batch_done) = Inr [9, 11]
   \<and> [2, 3] = expected_q_values (gamma example_trained_done) [8, 10]
                  (batch_done_of example_batch_done) (batch_reward_of example_batch_done)
   \<and> [2, 3] = expected_q_values (gamma example_trained_done) [9, 11]
                  (batch_done_of example_batch_done) (batch_reward_of example_batch_done)
   \<and> set (batch_done_of example_batch_done) = {1}
   \<and> [2, 3] = batch_reward_of example_batch_done"
proof -
  obtain ag' where r: "optimize_model example_forward example_sample example_backward
      example_step 2 example_trained = Inr ag'"
    by (simp add: example_defs)
  have e: "2 \<le> int (length (memory example_trained))" by (simp add: example_defs)
  have s: "example_sample (memory example_trained) 2 = Inr example_batch"
    by (simp add: example_defs)
  have n1: "next_q_values example_forward (target_net_level_1 example_trained)
        (batch_next_state_of example_batch) = Inr [8, 10]"
    by (simp add: example_defs)
  have n2: "next_q_values example_forward (target_net_level_2 example_trained)
        (batch_next_state_of example_batch) = Inr [9, 11]"
    by (simp add: example_defs)
  have y1: "[2, 8] = expected_q_values (gamma example_trained) [8, 10]
                  (batch_done_of example_batch) (batch_reward_of example_batch)"
    by (simp add: example_defs expected_q_values_def)
  have y2: "[2, 17 / 2] = expected_q_values (gamma example_trained) [9, 11]
                  (batch_done_of example_batch) (batch_reward_of example_batch)"
    by (simp add: example_defs expected_q_values_def)
  have cq: "current_q_values example_forward 1 (batch_state_of example_batch)
        (batch_action_level_of example_batch) = Inr [0, 1]"
    by (simp add: example_defs)
  have i: "1 < length example_batch" by (simp add: example_batch_def)
  have t: "example_batch ! Suc 0 = (1, (0, 1), 3, 7, False)" by (simp add: example_batch_def)
  note T = optimize_model_bellman_target[OF r e s n1 n2 y1 y2]
  from T[THEN conjunct1] T[THEN conjunct2, THEN conjunct1]
  have A: "policy_net_level_1 ag' =
        snd (example_step (optimizer_level_1 example_trained) (policy_net_level_1 example_trained)
              (example_backward (loss example_forward (batch_state_of example_batch)
                                   (batch_action_level_of example_batch) [2, 8])
                 (policy_net_level_1 example_trained)))
   \<and> policy_net_level_2 ag' =
        snd (example_step (optimizer_level_2 example_trained) (policy_net_level_2 example_trained)
              (example_backward (loss example_forward (batch_state_of example_batch)
                                   (batch_action_color_of example_batch) [2, 17 / 2])
                 (policy_net_level_2 example_trained)))"
    by (rule conjI)
  from T[THEN conjunct2, THEN conjunct2, THEN conjunct1, THEN spec, THEN spec, THEN mp, OF cq]
  have L: "loss example_forward (batch_state_of example_batch)
        (batch_action_level_of example_batch) [2, 8] 1
       = (\<Sum>i<length example_batch. ([0, 1] ! i - [2, 8] ! i)\<^sup>2) / real (length example_batch)" .
  from T[THEN conjunct2, THEN conjunct2, THEN conjunct2, THEN conjunct2, THEN conjunct1,
         THEN spec, THEN mp, OF i]
  have B: "[2, 8] ! 1 = 3 + gamma example_trained
                      * Max (set (example_forward (target_net_level_1 example_trained) 7))
                      * (1 - of_bool False)
   \<and> [2, 17 / 2] ! 1 = 3 + gamma example_trained
                      * Max (set (example_forward (target_net_level_2 example_trained) 7))
                      * (1 - of_bool False)"
    by (simp add: t)
  obtain ag'' where r': "optimize_model example_forward example_sample example_backward
      example_step 2 example_trained_done = Inr ag''"
    by (simp add: example_defs)
  have e': "2 \<le> int (length (memory example_trained_done))" by (simp add: example_defs)
  have s': "example_sample (memory example_trained_done) 2 = Inr example_batch_done"
    by (simp add: example_defs)
  have n1': "next_q_values example_forward (target_net_level_1 example_trained_done)
        (batch_next_state_of example_batch_done) = Inr [8, 10]"
    by (simp add: example_defs)
  have n2': "next_q_values example_forward (target_net_level_2 example_trained_done)
        (batch_next_state_of example_batch_done) = Inr [9, 11]"
    by (simp add: example_defs)
  have y1': "[2, 3] = expected_q_values (gamma example_trained_done) [8, 10]
                  (batch_done_of example_batch_done) (batch_reward_of example_batch_done)"
    by (simp add: example_defs expected_q_values_def)
  have y2': "[2, 3] = expected_q_values (gamma example_trained_done) [9, 11]
                  (batch_done_of example_batch_done) (batch_reward_of example_batch_done)"
    by (simp add: example_defs expected_q_values_def)
  have d: "set (batch_done_of example_batch_done) = {1}" by (simp add: example_defs)
  then have d': "\<forall>d\<in>set (batch_done_of example_batch_done). d = 1" by simp
  from optimize_model_bellman_target[OF r' e' s' n1' n2' y1' y2', THEN conjunct2, THEN conjunct2,
         THEN conjunct2, THEN conjunct2, THEN conjunct2, THEN mp, OF d', THEN conjunct1]
  have C: "[2, 3] = batch_reward_of example_batch_done" .
  from r e s n1 n2 y1 y2 A cq L B r' e' s' n1' n2' y1' y2' d C show ?thesis by blast
qed

lemma optimize_model_level_1_frame:
  assumes "optimize_model forward sample backward step batch_size ag = Inr ag1"
    and "optimize_model forward sample backward step batch_size
           (ag\<lparr>policy_net_level_2 := p2, target_net_level_2 := t2, optimizer_level_2 := o2\<rparr>)
         = Inr ag2"
  shows "policy_net_level_1 ag2 = policy_net_level_1 ag1
       \<and> optimizer_level_1 ag2 = optimizer_level_1 ag1"
proof (cases "int (length (memory ag)) < batch_size")
  case True
  then show ?thesis using assms by (auto simp: optimize_model_def)
next
  case False
  let ?ag' = "ag\<lparr>policy_net_level_2 := p2, target_net_level_2 := t2, optimizer_level_2 := o2\<rparr>"
  have F: "\<not> int (length (memory ?ag')) < batch_size" using False by simp
  from optimize_model_Inr[OF assms(1) False] optimize_model_Inr[OF assms(2) F]
  show ?thesis by auto
qed

lemma optimize_model_level_2_frame:
  assumes "optimize_model forward sample backward step batch_size ag = Inr ag1"
    and "optimize_model forward sample backward step batch_size
           (ag\<lparr>policy_net_level_1 := p1, target_net_level_1 := t1, optimizer_level_1 := o1\<rparr>)
         = Inr ag3"
  shows "policy_net_level_2 ag3 = policy_net_level_2 ag1
       \<and> optimizer_level_2 ag3 = optimizer_level_2 ag1"
proof (cases "int (length (memory ag)) < batch_size")
  case True
  then show ?thesis using assms by (auto simp: optimize_model_def)
next
  case False
  let ?ag' = "ag\<lparr>policy_net_level_1 := p1, target_net_level_1 := t1, optimizer_level_1 := o1\<rparr>"
  have F: "\<not> int (length (memory ?ag')) < batch_size" using False by simp
  from optimize_model_Inr[OF assms(1) False] optimize_model_Inr[OF assms(2) F]
  show ?thesis by auto
qed

text \<open>
  C6. In one step of \<open>optimize_model\<close> the new parameters of the level policy network
  are the optimiser's step on the gradient of the level loss alone, and those of the colour
  policy network the step on the gradient of the colour loss alone; the two losses are
  separate functions, each of one network's parameters. Replacing the colour policy
  network, the colour target network and the colour optimiser by any others leaves the
  resulting level parameters and level optimiser unchanged, and conversely.
\<close>

theorem optimize_model_independent_updates:
  assumes run: "optimize_model forward sample backward step batch_size ag = Inr ag1"
    and run2: "optimize_model forward sample backward step batch_size
           (ag\<lparr>policy_net_level_2 := p2, target_net_level_2 := t2, optimizer_level_2 := o2\<rparr>)
         = Inr ag2"
    and run3: "optimize_model forward sample backward step batch_size
           (ag\<lparr>policy_net_level_1 := p1, target_net_level_1 := t1, optimizer_level_1 := o1\<rparr>)
         = Inr ag3"
    and enough: "batch_size \<le> int (length (memory ag))"
    and smp: "sample (memory ag) batch_size = Inr transitions"
    and nq1: "next_q_values forward (target_net_level_1 ag) (batch_next_state_of transitions)
                = Inr next_1"
    and nq2: "next_q_values forward (target_net_level_2 ag) (batch_next_state_of transitions)
                = Inr next_2"
  shows "policy_net_level_1 ag1 =
           snd (step (optimizer_level_1 ag) (policy_net_level_1 ag)
                 (backward (loss forward (batch_state_of transitions)
                              (batch_action_level_of transitions)
                              (expected_q_values (gamma ag) next_1 (batch_done_of transitions)
                                 (batch_reward_of transitions)))
                    (policy_net_level_1 ag)))
       \<and> policy_net_level_2 ag1 =
           snd (step (optimizer_level_2 ag) (policy_net_level_2 ag)
                 (backward (loss forward (batch_state_of transitions)
                              (batch_action_color_of transitions)
                              (expected_q_values (gamma ag) next_2 (batch_done_of transitions)
                                 (batch_reward_of transitions)))
                    (policy_net_level_2 ag)))
       \<and> policy_net_level_1 ag2 = policy_net_level_1 ag1
       \<and> optimizer_level_1 ag2 = optimizer_level_1 ag1
       \<and> policy_net_level_2 ag3 = policy_net_level_2 ag1
       \<and> optimizer_level_2 ag3 = optimizer_level_2 ag1"
proof -
  have ne: "\<not> int (length (memory ag)) < batch_size" using enough by simp
  from optimize_model_Inr[OF run ne] smp nq1 nq2
  have a: "policy_net_level_1 ag1 =
           snd (step (optimizer_level_1 ag) (policy_net_level_1 ag)
                 (backward (loss forward (batch_state_of transitions)
                              (batch_action_level_of transitions)
                              (expected_q_values (gamma ag) next_1 (batch_done_of transitions)
                                 (batch_reward_of transitions)))
                    (policy_net_level_1 ag)))"
    and b: "policy_net_level_2 ag1 =
           snd (step (optimizer_level_2 ag) (policy_net_level_2 ag)
                 (backward (loss forward (batch_state_of transitions)
                              (batch_action_color_of transitions)
                              (expected_q_values (gamma ag) next_2 (batch_done_of transitions)
                                 (batch_reward_of transitions)))
                    (policy_net_level_2 ag)))"
    by auto
  from a b optimize_model_level_1_frame[OF run run2] optimize_model_level_2_frame[OF run run3]
  show ?thesis by blast
qed

theorem optimize_model_independent_updates_witness:
  "\<exists>ag1 ag2 ag3.
     optimize_model example_forward example_sample example_backward example_step 2 example_trained
       = Inr ag1
   \<and> optimize_model example_forward example_sample example_backward example_step 2
       (example_trained\<lparr>policy_net_level_2 := 7, target_net_level_2 := 8, optimizer_level_2 := 9\<rparr>)
       = Inr ag2
   \<and> optimize_model example_forward example_sample example_backward example_step 2
       (example_trained\<lparr>policy_net_level_1 := 7, target_net_level_1 := 8, optimizer_level_1 := 9\<rparr>)
       = Inr ag3
   \<and> 2 \<le> int (length (memory example_trained))
   \<and> example_sample (memory example_trained) 2 = Inr example_batch
   \<and> next_q_values example_forward (target_net_level_1 example_trained)
        (batch_next_state_of example_batch) = Inr [8, 10]
   \<and> next_q_values example_forward (target_net_level_2 example_trained)
        (batch_next_state_of example_batch) = Inr [9, 11]
   \<and> policy_net_level_1 ag1 =
        snd (example_step (optimizer_level_1 example_trained) (policy_net_level_1 example_trained)
              (example_backward (loss example_forward (batch_state_of example_batch)
                           (batch_action_level_of example_batch)
                           (expected_q_values (gamma example_trained) [8, 10]
                              (batch_done_of example_batch) (batch_reward_of example_batch)))
                 (policy_net_level_1 example_trained)))
   \<and> policy_net_level_2 ag1 =
        snd (example_step (optimizer_level_2 example_trained) (policy_net_level_2 example_trained)
              (example_backward (loss example_forward (batch_state_of example_batch)
                           (batch_action_color_of example_batch)
                           (expected_q_values (gamma example_trained) [9, 11]
                              (batch_done_of example_batch) (batch_reward_of example_batch)))
                 (policy_net_level_2 example_trained)))
   \<and> policy_net_level_1 ag2 = policy_net_level_1 ag1
   \<and> optimizer_level_1 ag2 = optimizer_level_1 ag1
   \<and> policy_net_level_2 ag3 = policy_net_level_2 ag1
   \<and> optimizer_level_2 ag3 = optimizer_level_2 ag1"
proof -
  obtain ag1 where r1:
    "optimize_model example_forward example_sample example_backward example_step 2 example_trained
       = Inr ag1"
    by (simp add: example_defs)
  obtain ag2 where r2:
    "optimize_model example_forward example_sample example_backward example_step 2
       (example_trained\<lparr>policy_net_level_2 := 7, target_net_level_2 := 8, optimizer_level_2 := 9\<rparr>)
       = Inr ag2"
    by (simp add: example_defs)
  obtain ag3 where r3:
    "optimize_model example_forward example_sample example_backward example_step 2
       (example_trained\<lparr>policy_net_level_1 := 7, target_net_level_1 := 8, optimizer_level_1 := 9\<rparr>)
       = Inr ag3"
    by (simp add: example_defs)
  have e: "2 \<le> int (length (memory example_trained))"
    by (simp add: example_trained_def example_batch_def)
  have s: "example_sample (memory example_trained) 2 = Inr example_batch"
    by (simp add: example_trained_def example_sample_def example_batch_def)
  have n1: "next_q_values example_forward (target_net_level_1 example_trained)
        (batch_next_state_of example_batch) = Inr [8, 10]"
    by (simp add: example_defs)
  have n2: "next_q_values example_forward (target_net_level_2 example_trained)
        (batch_next_state_of example_batch) = Inr [9, 11]"
    by (simp add: example_defs)
  from optimize_model_independent_updates[OF r1 r2 r3 e s n1 n2] r1 r2 r3 e s n1 n2
  show ?thesis by blast
qed

subsection \<open>Action selection\<close>






lemma randrange_0_9: "randrange 0 9 = [0, 1, 2, 3, 4, 5, 6, 7, 8]"
  unfolding randrange_def by code_simp

lemma randrange_0_2: "randrange 0 2 = [0, 1]"
  unfolding randrange_def by code_simp

lemma select_action_explore:
  assumes "epsilon_decay ag \<noteq> 0"
    and "r \<le> epsilon_end ag + (epsilon ag - epsilon_end ag) *
               exp (- 1 * of_int (steps_done ag + 1) / epsilon_decay ag)"
  shows "snd (select_action forward ag state r) =
     [Inr (0, ''y''), Inr (0, ''b''), Inr (1, ''y''), Inr (1, ''b''),
     Inr (2, ''y''), Inr (2, ''b''), Inr (3, ''y''), Inr (3, ''b''), Inr (4, ''y''), Inr (4, ''b''),
     Inr (5, ''y''), Inr (5, ''b''), Inr (6, ''y''), Inr (6, ''b''), Inr (7, ''y''), Inr (7, ''b''),
     Inr (8, ''y''), Inr (8, ''b'')]"
  using assms
  by (simp add: select_action_def Let_def randrange_0_9 randrange_0_2 INT_TO_COLOR_def)

lemma first_index_less: "v \<in> set row \<Longrightarrow> first_index row v < length row"
  by (induction row) auto

lemma fold_max_in: "fold max xs (x::real) \<in> set (x # xs)"
proof -
  have "fold max xs x = Max (set (x # xs))" by (simp only: Max.set_eq_fold)
  moreover have "Max (set (x # xs)) \<in> set (x # xs)" by (rule Max_in) simp_all
  ultimately show ?thesis by simp
qed

lemma argmax_range: "argmax row = Inr i \<Longrightarrow> 0 \<le> i \<and> i < int (length row)"
proof -
  assume a: "argmax row = Inr i"
  then obtain x xs where row: "row = x # xs"
    by (cases row) (auto simp: argmax_def row_max_def)
  from a have i: "i = int (first_index row (fold max xs x))"
    by (auto simp: argmax_def row_max_def row)
  have "fold max xs x \<in> set row" unfolding row by (rule fold_max_in)
  then have "first_index row (fold max xs x) < length row" by (rule first_index_less)
  then show ?thesis using i by simp
qed

text \<open>
  When the level network gives at least nine values, every pair a call returns has its
  level among the level network's indices and a colour of the table.
\<close>

lemma select_action_in_range:
  assumes n1: "9 \<le> length (forward (policy_net_level_1 ag) state)"
    and dec: "epsilon_decay ag \<noteq> 0"
    and res: "Inr (level, color) \<in> set (snd (select_action forward ag state r))"
  shows "0 \<le> level \<and> level < int (length (forward (policy_net_level_1 ag) state))
         \<and> color \<in> {''y'', ''b'', ''g''}"
proof (cases "r > epsilon_end ag + (epsilon ag - epsilon_end ag) *
               exp (- 1 * of_int (steps_done ag + 1) / epsilon_decay ag)")
  case True
  with res dec obtain c where
    l: "argmax (forward (policy_net_level_1 ag) state) = Inr level"
    and c: "argmax (forward (policy_net_level_2 ag) state) = Inr c"
    and k: "INT_TO_COLOR c = Some color"
    by (auto simp: select_action_def Let_def split: sum.splits option.splits)
  from k have "color \<in> {''y'', ''b'', ''g''}"
    by (auto simp: INT_TO_COLOR_def split: if_splits)
  with argmax_range[OF l] show ?thesis by simp
next
  case False
  then have "r \<le> epsilon_end ag + (epsilon ag - epsilon_end ag) *
               exp (- 1 * of_int (steps_done ag + 1) / epsilon_decay ag)" by simp
  from select_action_explore[OF dec this, of forward state] res n1
  show ?thesis by auto
qed

lemma agent0_explores:
  "snd (select_action fwd0 (agent0 5000) () 0) =
     [Inr (0, ''y''), Inr (0, ''b''), Inr (1, ''y''), Inr (1, ''b''),
      Inr (2, ''y''), Inr (2, ''b''), Inr (3, ''y''), Inr (3, ''b''), Inr (4, ''y''), Inr (4, ''b''),
      Inr (5, ''y''), Inr (5, ''b''), Inr (6, ''y''), Inr (6, ''b''), Inr (7, ''y''), Inr (7, ''b''),
      Inr (8, ''y''), Inr (8, ''b'')]"
proof -
  have "(0::real) \<le> 1 / 10 + (1 - 1 / 10) * exp (- 1 * of_int (0 + 1) / 5000)"
    by simp
  then show ?thesis
    by (intro select_action_explore) (simp_all add: agent0_def init_def Let_def)
qed

text \<open>
  C3. The claim is that every returned level is below the number of level actions. The
  Explore branch draws the level from \<open>0, ..., 8\<close> whatever that number is: for the agent
  constructed with five level actions, whose level network gives five values, level \<open>8\<close>
  is among the results of a call that explores.
\<close>

theorem explore_level_out_of_range:
  "Inr (8, ''y'') \<in> set (snd (select_action fwd0 (agent0 5000) () 0))
   \<and> length (fwd0 (policy_net_level_1 (agent0 5000)) ()) = 5"
  by (simp add: agent0_explores) (simp add: fwd0_def agent0_def init_def Let_def)

text \<open>
  C4. The claim is that the Explore branch draws uniformly over all legal colour indices.
  The colour index is drawn from \<open>0, 1\<close> only: index \<open>2\<close>, the colour \<open>g\<close> of the table,
  is never a result of a call that explores, at any level.
\<close>

theorem explore_never_green:
  "Inr (level, ''g'') \<notin> set (snd (select_action fwd0 (agent0 5000) () 0))
   \<and> INT_TO_COLOR 2 = Some ''g''"
  by (simp add: agent0_explores) (simp add: INT_TO_COLOR_def)

end
